theory Spec2Isabelle
  imports Complex_Main
begin

section \<open>Listings\<close>

text \<open>
  A listing document of the Scooter model (the Bike model has the same shape); only the
  paths that the routes and hooks below read or write are kept. A path the schema does
  not require is an \<open>option\<close>: \<open>None\<close> is JavaScript's \<open>undefined\<close>. String paths hold
  the value after the schema's setters (\<open>trim\<close>) have run. Number paths holding prices
  are exact rationals and \<open>viewCount\<close> (schema: \<open>min: 0, default: 0\<close>) is a natural number;
  \<open>NaN\<close>, infinities and the rounding of IEEE doubles are outside the model.
\<close>

record listing =
  doc_id :: string
  name :: string
  brand :: string
  description :: "string option"
  type :: string
  condition :: string
  engineCapacity :: "string option"
  batteryCapacity :: "string option"
  presentPrice :: rat
  pastPrice :: rat
  seller_email :: string
  contactInfo_email :: "string option"
  availability :: string
  viewCount :: nat
  isActive :: bool
  createdAt :: int

text \<open>JavaScript truthiness of an optional string: defined and not empty.\<close>

definition truthy :: "string option \<Rightarrow> bool" where
  "truthy v = (case v of None \<Rightarrow> False | Some s \<Rightarrow> s \<noteq> [])"

subsection \<open>Virtuals\<close>

text \<open>
  \<open>if (this.pastPrice && this.presentPrice) return Math.round(((pastPrice - presentPrice) / pastPrice) * 100); return 0\<close>.
  A number is truthy when it is not zero; \<open>Math.round\<close> rounds halves upwards, as \<open>round\<close> does.
\<close>

definition discount :: "listing \<Rightarrow> int" where
  "discount this =
     (if pastPrice this \<noteq> 0 \<and> presentPrice this \<noteq> 0
      then round (((pastPrice this - presentPrice this) / pastPrice this) * 100)
      else 0)"

definition priceDifference :: "listing \<Rightarrow> rat" where
  "priceDifference this =
     (if pastPrice this \<noteq> 0 \<and> presentPrice this \<noteq> 0
      then pastPrice this - presentPrice this
      else 0)"

subsection \<open>Validation and the pre-save hook\<close>

datatype save_error = ValidationError "string list" | Error string

text \<open>\<open>return this.type !== 'Petrol' || (v && v.length > 0)\<close>\<close>

definition engineCapacity_validator :: "listing \<Rightarrow> string \<Rightarrow> bool" where
  "engineCapacity_validator this v = (type this \<noteq> ''Petrol'' \<or> (v \<noteq> [] \<and> length v > 0))"

definition batteryCapacity_validator :: "listing \<Rightarrow> string \<Rightarrow> bool" where
  "batteryCapacity_validator this v = (type this \<noteq> ''Electric'' \<or> (v \<noteq> [] \<and> length v > 0))"

text \<open>
  Document validation, restricted to the two capacity paths. A custom validator is not
  run on an undefined path; a failing validator contributes its message.
\<close>

definition validate :: "listing \<Rightarrow> string list" where
  "validate this =
     (case engineCapacity this of
        None \<Rightarrow> []
      | Some v \<Rightarrow> if engineCapacity_validator this v then []
                  else [''Engine capacity is required for petrol scooters''])
     @
     (case batteryCapacity this of
        None \<Rightarrow> []
      | Some v \<Rightarrow> if batteryCapacity_validator this v then []
                  else [''Battery capacity is required for electric scooters''])"

text \<open>The \<open>pre('save')\<close> middleware: backfill of the contact email, then the capacity checks.\<close>

definition pre_save :: "listing \<Rightarrow> save_error + listing" where
  "pre_save this =
     (let this1 = (if \<not> truthy (contactInfo_email this) \<and> seller_email this \<noteq> []
                   then this\<lparr>contactInfo_email := Some (seller_email this)\<rparr> else this)
      in if type this1 = ''Petrol'' \<and> \<not> truthy (engineCapacity this1)
         then Inl (Error ''Engine capacity is required for petrol scooters'')
         else if type this1 = ''Electric'' \<and> \<not> truthy (batteryCapacity this1)
         then Inl (Error ''Battery capacity is required for electric scooters'')
         else Inr this1)"

text \<open>
  The collection is the list of its documents. Writing a document replaces the stored
  document with the same id, or appends it when the id is new.
\<close>

fun write_doc :: "listing \<Rightarrow> listing list \<Rightarrow> listing list" where
  "write_doc d [] = [d]"
| "write_doc d (x # xs) = (if doc_id x = doc_id d then d # xs else x # write_doc d xs)"

text \<open>
  \<open>doc.save()\<close>: validation, then the pre-save hook, then the write. (On a document
  loaded from the store only the modified paths are validated; a capacity path that
  fails its validator fails the hook as well, so the save is refused either way and only
  the kind of error differs.)
\<close>

definition save :: "listing \<Rightarrow> listing list \<Rightarrow> save_error + (listing \<times> listing list)" where
  "save this coll =
     (case validate this of
        [] \<Rightarrow> (case pre_save this of
                 Inl e \<Rightarrow> Inl e
               | Inr this1 \<Rightarrow> Inr (this1, write_doc this1 coll))
      | m # ms \<Rightarrow> Inl (ValidationError (m # ms)))"

section \<open>JavaScript helpers\<close>

text \<open>
  \<open>parseInt(string)\<close> with no radix: leading white space is skipped, an optional sign is
  read, a \<open>0x\<close>/\<open>0X\<close> prefix selects radix 16, and the longest prefix of digits is the
  value; when there is no digit the result is \<open>NaN\<close>, here \<open>None\<close>. The value is an exact
  integer (beyond \<open>2^53\<close> JavaScript rounds it), white space is the ASCII white space, and
  the sign of a zero is not kept.
\<close>

definition is_space :: "char \<Rightarrow> bool" where
  "is_space c = (of_char c \<in> {9::nat, 10, 11, 12, 13, 32})"

definition digit_of :: "char \<Rightarrow> nat option" where
  "digit_of c =
     (let n = of_char c :: nat in
      if 48 \<le> n \<and> n \<le> 57 then Some (n - 48)
      else if 97 \<le> n \<and> n \<le> 122 then Some (n - 87)
      else if 65 \<le> n \<and> n \<le> 90 then Some (n - 55)
      else None)"

fun digits :: "nat \<Rightarrow> string \<Rightarrow> nat list" where
  "digits R [] = []"
| "digits R (c # cs) =
     (case digit_of c of
        None \<Rightarrow> []
      | Some d \<Rightarrow> if d < R then d # digits R cs else [])"

definition number_of :: "nat \<Rightarrow> nat list \<Rightarrow> nat" where
  "number_of R ds = foldl (\<lambda>a d. a * R + d) 0 ds"

definition strip_sign :: "string \<Rightarrow> int \<times> string" where
  "strip_sign S =
     (case S of
        [] \<Rightarrow> (1, S)
      | c # cs \<Rightarrow> if c = CHR ''-'' then (- 1, cs)
                  else if c = CHR ''+'' then (1, cs)
                  else (1, S))"

definition strip_prefix :: "string \<Rightarrow> nat \<times> string" where
  "strip_prefix S =
     (case S of
        a # b # cs \<Rightarrow> if a = CHR ''0'' \<and> (b = CHR ''x'' \<or> b = CHR ''X'') then (16, cs) else (10, S)
      | _ \<Rightarrow> (10, S))"

definition parseInt :: "string \<Rightarrow> int option" where
  "parseInt s =
     (let (sign, S1) = strip_sign (dropWhile is_space s);
          (R, S2) = strip_prefix S1;
          Z = digits R S2
      in if Z = [] then None else Some (sign * int (number_of R Z)))"

text \<open>
  A number that may be \<open>Infinity\<close> or \<open>NaN\<close>, for \<open>Math.ceil(totalCount / limitNum)\<close>:
  a division by zero gives \<open>Infinity\<close>, or \<open>NaN\<close> when the count is zero as well.
\<close>

datatype jsnum = Num int | Infinity | NaN

definition ceil_div :: "nat \<Rightarrow> int \<Rightarrow> jsnum" where
  "ceil_div n l =
     (if l = 0 then (if n = 0 then NaN else Infinity)
      else Num \<lceil>(of_nat n :: rat) / of_int l\<rceil>)"

definition js_less :: "int \<Rightarrow> jsnum \<Rightarrow> bool" where
  "js_less p t = (case t of Num k \<Rightarrow> p < k | Infinity \<Rightarrow> True | NaN \<Rightarrow> False)"

section \<open>The store\<close>

text \<open>
  A query filter, one optional field per condition the routes can put into it. The
  price bounds hold the result of \<open>parseInt\<close>, so \<open>Some None\<close> is a bound that is \<open>NaN\<close>.
\<close>

record query_filter =
  f_isActive :: "bool option"
  f_availability :: "string option"
  f_type :: "string option"
  f_condition :: "string option"
  f_brand :: "string option"
  f_gte :: "int option option"
  f_lte :: "int option option"
  f_or :: "string option"

datatype store_error = CastError | MongoError

text \<open>
  The regular expression engine of the store is a parameter \<open>rx\<close>: \<open>rx p\<close> is \<open>None\<close> when
  the pattern \<open>p\<close> is not a regular expression, otherwise the case-insensitive test of \<open>p\<close>.
\<close>

type_synonym regex = "string \<Rightarrow> (string \<Rightarrow> bool) option"

definition test :: "regex \<Rightarrow> string \<Rightarrow> string \<Rightarrow> bool" where
  "test rx p s = (case rx p of None \<Rightarrow> False | Some m \<Rightarrow> m s)"

definition valid_pattern :: "regex \<Rightarrow> string option \<Rightarrow> bool" where
  "valid_pattern rx p = (case p of None \<Rightarrow> True | Some r \<Rightarrow> rx r \<noteq> None)"

text \<open>The filter is rejected when a number bound is \<open>NaN\<close> or a pattern is malformed.\<close>

definition check_filter :: "regex \<Rightarrow> query_filter \<Rightarrow> store_error option" where
  "check_filter rx f =
     (if f_gte f = Some None \<or> f_lte f = Some None then Some CastError
      else if \<not> valid_pattern rx (f_brand f) \<or> \<not> valid_pattern rx (f_or f) then Some MongoError
      else None)"

definition matches :: "regex \<Rightarrow> query_filter \<Rightarrow> listing \<Rightarrow> bool" where
  "matches rx f d =
     ((case f_isActive f of None \<Rightarrow> True | Some b \<Rightarrow> isActive d = b) \<and>
      (case f_availability f of None \<Rightarrow> True | Some a \<Rightarrow> availability d = a) \<and>
      (case f_type f of None \<Rightarrow> True | Some t \<Rightarrow> type d = t) \<and>
      (case f_condition f of None \<Rightarrow> True | Some c \<Rightarrow> condition d = c) \<and>
      (case f_brand f of None \<Rightarrow> True | Some p \<Rightarrow> test rx p (brand d)) \<and>
      (case f_gte f of Some (Some n) \<Rightarrow> of_int n \<le> presentPrice d | _ \<Rightarrow> True) \<and>
      (case f_lte f of Some (Some n) \<Rightarrow> presentPrice d \<le> of_int n | _ \<Rightarrow> True) \<and>
      (case f_or f of
         None \<Rightarrow> True
       | Some p \<Rightarrow> test rx p (name d) \<or> test rx p (brand d) \<or>
                   (case description d of None \<Rightarrow> False | Some s \<Rightarrow> test rx p s)))"

definition no_filter :: query_filter where
  "no_filter = \<lparr>f_isActive = None, f_availability = None, f_type = None, f_condition = None,
                f_brand = None, f_gte = None, f_lte = None, f_or = None\<rparr>"

text \<open>
  A cursor: \<open>skip\<close> and \<open>limit\<close> arrive as numbers that may be \<open>NaN\<close> (\<open>None\<close>). The store
  rejects a skip or limit that is not a number and a negative skip; a limit of zero is
  no limit, and a negative limit counts as its absolute value.
\<close>

definition skip_limit :: "int option \<Rightarrow> int option \<Rightarrow> 'a list \<Rightarrow> store_error + 'a list" where
  "skip_limit skp lmt xs =
     (case (skp, lmt) of
        (Some s, Some l) \<Rightarrow>
          if s < 0 then Inl MongoError
          else if l = 0 then Inr (drop (nat s) xs)
          else Inr (take (nat \<bar>l\<bar>) (drop (nat s) xs))
      | _ \<Rightarrow> Inl MongoError)"

text \<open>
  \<open>Model.find(filter).sort(sort).skip(skip).limit(limit)\<close>. The order that a sort
  specification puts on documents is the parameter \<open>ord\<close>, a key for each document.
\<close>

definition find_docs ::
  "regex \<Rightarrow> (string \<Rightarrow> listing \<Rightarrow> 'k::linorder) \<Rightarrow> query_filter \<Rightarrow> string \<Rightarrow>
   int option \<Rightarrow> int option \<Rightarrow> listing list \<Rightarrow> store_error + listing list" where
  "find_docs rx ord f srt skp lmt coll =
     (case check_filter rx f of
        Some e \<Rightarrow> Inl e
      | None \<Rightarrow> skip_limit skp lmt (sort_key (ord srt) (filter (matches rx f) coll)))"

fun count_matching :: "(listing \<Rightarrow> bool) \<Rightarrow> listing list \<Rightarrow> nat" where
  "count_matching P [] = 0"
| "count_matching P (d # ds) = (if P d then Suc (count_matching P ds) else count_matching P ds)"

definition countDocuments :: "regex \<Rightarrow> query_filter \<Rightarrow> listing list \<Rightarrow> store_error + nat" where
  "countDocuments rx f coll =
     (case check_filter rx f of
        Some e \<Rightarrow> Inl e
      | None \<Rightarrow> Inr (count_matching (matches rx f) coll))"

text \<open>An id is cast to an ObjectId: 24 hexadecimal digits, or the cast fails.\<close>

definition is_hex :: "char \<Rightarrow> bool" where
  "is_hex c = (case digit_of c of None \<Rightarrow> False | Some d \<Rightarrow> d < 16)"

definition isObjectId :: "string \<Rightarrow> bool" where
  "isObjectId s = (length s = 24 \<and> list_all is_hex s)"

definition findById :: "string \<Rightarrow> listing list \<Rightarrow> store_error + listing option" where
  "findById i coll =
     (if isObjectId i then Inr (List.find (\<lambda>d. doc_id d = i) coll) else Inl CastError)"

text \<open>
  \<open>findByIdAndUpdate(id, update, {new: true})\<close>: the first document with the id is
  updated in place and returned; no document hook runs.
\<close>

fun update_first :: "string \<Rightarrow> (listing \<Rightarrow> listing) \<Rightarrow> listing list \<Rightarrow> listing option \<times> listing list" where
  "update_first i u [] = (None, [])"
| "update_first i u (d # ds) =
     (if doc_id d = i then (Some (u d), u d # ds)
      else (case update_first i u ds of (r, ds1) \<Rightarrow> (r, d # ds1)))"

definition findByIdAndUpdate ::
  "string \<Rightarrow> (listing \<Rightarrow> listing) \<Rightarrow> listing list \<Rightarrow> store_error + (listing option \<times> listing list)" where
  "findByIdAndUpdate i u coll =
     (if isObjectId i then Inr (update_first i u coll) else Inl CastError)"

subsection \<open>Statics and methods of the model\<close>

definition findByType_filter :: "string \<Rightarrow> query_filter" where
  "findByType_filter t = no_filter\<lparr>f_type := Some t, f_availability := Some ''available'',
                                   f_isActive := Some True\<rparr>"



definition markAsSold :: "listing \<Rightarrow> listing list \<Rightarrow> save_error + (listing \<times> listing list)" where
  "markAsSold this coll = save (this\<lparr>availability := ''sold''\<rparr>) coll"

section \<open>The routes\<close>

text \<open>
  The query string of a request: every parameter is a string or absent. A handler
  answers with \<open>res.json\<close> (\<open>Success\<close>, status 200) or with a status and a message.
\<close>

record query =
  q_page :: "string option"
  q_limit :: "string option"
  q_sort :: "string option"
  q_type :: "string option"
  q_condition :: "string option"
  q_minPrice :: "string option"
  q_maxPrice :: "string option"
  q_brand :: "string option"
  q_search :: "string option"
  q_availability :: "string option"

datatype 'a response = Success 'a | Failure nat string

record page =
  scooters :: "listing list"
  currentPage :: int
  totalPages :: jsnum
  totalCount :: nat
  hasNextPage :: bool
  hasPrevPage :: bool

text \<open>A destructuring default applies to an absent parameter only.\<close>

definition default :: "string \<Rightarrow> string option \<Rightarrow> string" where
  "default d v = (case v of None \<Rightarrow> d | Some s \<Rightarrow> s)"

text \<open>\<open>v && values.includes(v)\<close>\<close>

definition array_includes :: "string list \<Rightarrow> string option \<Rightarrow> bool" where
  "array_includes vs v = (case v of None \<Rightarrow> False | Some s \<Rightarrow> s \<noteq> [] \<and> s \<in> set vs)"

text \<open>\<open>if (v) bound = parseInt(v)\<close>\<close>

definition bound :: "string option \<Rightarrow> int option option" where
  "bound v = (case v of None \<Rightarrow> None | Some s \<Rightarrow> if s = [] then None else Some (parseInt s))"

definition build_filter :: "query \<Rightarrow> query_filter" where
  "build_filter q =
     (let f0 = no_filter\<lparr>f_isActive := Some True,
                         f_availability := Some (default ''available'' (q_availability q))\<rparr>;
          f1 = (if array_includes [''Petrol'', ''Electric''] (q_type q)
                then f0\<lparr>f_type := q_type q\<rparr> else f0);
          f2 = (if array_includes [''Excellent'', ''Good'', ''Fair'', ''Poor''] (q_condition q)
                then f1\<lparr>f_condition := q_condition q\<rparr> else f1);
          f3 = (if truthy (q_brand q) then f2\<lparr>f_brand := q_brand q\<rparr> else f2);
          f4 = (if truthy (q_minPrice q) \<or> truthy (q_maxPrice q)
                then f3\<lparr>f_gte := bound (q_minPrice q), f_lte := bound (q_maxPrice q)\<rparr> else f3)
      in if truthy (q_search q) then f4\<lparr>f_or := q_search q\<rparr> else f4)"

text \<open>
  The pagination block that the three listing handlers share word for word: parse
  \<open>page\<close> and \<open>limit\<close>, run the query with \<open>skip = (pageNum - 1) * limitNum\<close>, count the
  documents of the same filter, and build the pagination record. Any failure of the
  store ends in the handler's \<open>catch\<close>, status 500.
\<close>

definition skip_of :: "int option \<Rightarrow> int option \<Rightarrow> int option" where
  "skip_of pageNum limitNum =
     (case (pageNum, limitNum) of (Some p, Some l) \<Rightarrow> Some ((p - 1) * l) | _ \<Rightarrow> None)"

definition paginate ::
  "regex \<Rightarrow> (string \<Rightarrow> listing \<Rightarrow> 'k::linorder) \<Rightarrow> query_filter \<Rightarrow> query \<Rightarrow> string \<Rightarrow>
   listing list \<Rightarrow> page response" where
  "paginate rx ord f q msg coll =
     (let pageNum = parseInt (default ''1'' (q_page q));
          limitNum = parseInt (default ''10'' (q_limit q))
      in case find_docs rx ord f (default ''-createdAt'' (q_sort q))
                (skip_of pageNum limitNum) limitNum coll of
           Inl e \<Rightarrow> Failure 500 msg
         | Inr docs \<Rightarrow>
             (case countDocuments rx f coll of
                Inl e \<Rightarrow> Failure 500 msg
              | Inr n \<Rightarrow>
                  (case (pageNum, limitNum) of
                     (Some p, Some l) \<Rightarrow>
                       Success \<lparr>scooters = docs, currentPage = p, totalPages = ceil_div n l,
                                totalCount = n, hasNextPage = js_less p (ceil_div n l),
                                hasPrevPage = (p > 1)\<rparr>
                   | _ \<Rightarrow> Failure 500 msg)))"

text \<open>\<open>GET /\<close>\<close>

definition list_route ::
  "regex \<Rightarrow> (string \<Rightarrow> listing \<Rightarrow> 'k::linorder) \<Rightarrow> query \<Rightarrow> listing list \<Rightarrow> page response" where
  "list_route rx ord q coll = paginate rx ord (build_filter q) q ''Error fetching scooters'' coll"


text \<open>\<open>DELETE /:id\<close>\<close>

definition delete_route :: "string \<Rightarrow> listing list \<Rightarrow> listing response \<times> listing list" where
  "delete_route i coll =
     (case findByIdAndUpdate i (\<lambda>d. d\<lparr>isActive := False\<rparr>) coll of
        Inl e \<Rightarrow> (Failure 400 ''Invalid scooter ID format'', coll)
      | Inr (None, coll1) \<Rightarrow> (Failure 404 ''Scooter not found'', coll1)
      | Inr (Some scooter, coll1) \<Rightarrow> (Success scooter, coll1))"

text \<open>\<open>PATCH /:id/sold\<close>\<close>

definition sold_route :: "string \<Rightarrow> listing list \<Rightarrow> listing response \<times> listing list" where
  "sold_route i coll =
     (case findById i coll of
        Inl e \<Rightarrow> (Failure 400 ''Invalid scooter ID format'', coll)
      | Inr None \<Rightarrow> (Failure 404 ''Scooter not found'', coll)
      | Inr (Some scooter) \<Rightarrow>
          (case markAsSold scooter coll of
             Inl e \<Rightarrow> (Failure 500 ''Error marking scooter as sold'', coll)
           | Inr (scooter1, coll1) \<Rightarrow> (Success scooter1, coll1)))"

text \<open>\<open>GET /type/:type\<close>\<close>

definition type_route ::
  "regex \<Rightarrow> (string \<Rightarrow> listing \<Rightarrow> 'k::linorder) \<Rightarrow> string \<Rightarrow> query \<Rightarrow> listing list \<Rightarrow>
   page response" where
  "type_route rx ord t q coll =
     (if t \<notin> set [''Petrol'', ''Electric'']
      then Failure 400 ''Invalid scooter type. Must be Petrol or Electric''
      else paginate rx ord (findByType_filter t) q ''Error fetching scooters by type'' coll)"


text \<open>
  \<open>GET /stats/overview\<close>: five counts and one aggregation. The \<open>$group\<close> stage runs
  through the matched documents once, keeping the sum, the number, the least and the
  greatest \<open>presentPrice\<close>; with no matched document the pipeline returns no group and
  the handler answers with zeros.
\<close>

record price_stats =
  avgPrice :: rat
  minPrice :: rat
  maxPrice :: rat

record stats =
  total :: nat
  available :: nat
  sold :: nat
  petrol :: nat
  electric :: nat
  priceStats :: price_stats

fun group_prices :: "rat \<times> nat \<times> rat \<times> rat \<Rightarrow> listing list \<Rightarrow> rat \<times> nat \<times> rat \<times> rat" where
  "group_prices acc [] = acc"
| "group_prices (s, n, lo, hi) (d # ds) =
     group_prices (s + presentPrice d, Suc n, min lo (presentPrice d), max hi (presentPrice d)) ds"

definition aggregate :: "regex \<Rightarrow> query_filter \<Rightarrow> listing list \<Rightarrow> price_stats list" where
  "aggregate rx f coll =
     (case filter (matches rx f) coll of
        [] \<Rightarrow> []
      | d # ds \<Rightarrow>
          (case group_prices (presentPrice d, 1, presentPrice d, presentPrice d) ds of
             (s, n, lo, hi) \<Rightarrow> [\<lparr>avgPrice = s / of_nat n, minPrice = lo, maxPrice = hi\<rparr>]))"

definition count_or_fail ::
  "regex \<Rightarrow> query_filter \<Rightarrow> listing list \<Rightarrow> (nat \<Rightarrow> stats response) \<Rightarrow> stats response" where
  "count_or_fail rx f coll k =
     (case countDocuments rx f coll of
        Inl e \<Rightarrow> Failure 500 ''Error fetching scooter statistics''
      | Inr n \<Rightarrow> k n)"

definition stats_route :: "regex \<Rightarrow> listing list \<Rightarrow> stats response" where
  "stats_route rx coll =
     count_or_fail rx (no_filter\<lparr>f_isActive := Some True\<rparr>) coll (\<lambda>totalScooters.
     count_or_fail rx (no_filter\<lparr>f_availability := Some ''available'', f_isActive := Some True\<rparr>) coll (\<lambda>availableScooters.
     count_or_fail rx (no_filter\<lparr>f_availability := Some ''sold'', f_isActive := Some True\<rparr>) coll (\<lambda>soldScooters.
     count_or_fail rx (no_filter\<lparr>f_type := Some ''Petrol'', f_isActive := Some True\<rparr>) coll (\<lambda>petrolScooters.
     count_or_fail rx (no_filter\<lparr>f_type := Some ''Electric'', f_isActive := Some True\<rparr>) coll (\<lambda>electricScooters.
       Success \<lparr>total = totalScooters, available = availableScooters, sold = soldScooters,
                petrol = petrolScooters, electric = electricScooters,
                priceStats =
                  (case aggregate rx (no_filter\<lparr>f_isActive := Some True, f_availability := Some ''available''\<rparr>) coll of
                     [] \<Rightarrow> \<lparr>avgPrice = 0, minPrice = 0, maxPrice = 0\<rparr>
                   | g # gs \<Rightarrow> g)\<rparr>)))))"

section \<open>Example documents\<close>

definition petrol_scooter :: listing where
  "petrol_scooter =
     \<lparr>doc_id = ''64f1b2c3d4e5f6789abcdef0'', name = ''Activa'', brand = ''Honda'',
      description = None, type = ''Petrol'', condition = ''Good'',
      engineCapacity = Some ''110cc'', batteryCapacity = None,
      presentPrice = 150000, pastPrice = 200000, seller_email = ''a@b.co'',
      contactInfo_email = None, availability = ''available'', viewCount = 0,
      isActive = True, createdAt = 1\<rparr>"

definition electric_scooter :: listing where
  "electric_scooter =
     petrol_scooter\<lparr>doc_id := ''64f1b2c3d4e5f6789abcdef1'', name := ''Chetak'', brand := ''Bajaj'',
       type := ''Electric'', engineCapacity := None, batteryCapacity := Some ''3kWh'',
       presentPrice := 90000, pastPrice := 120000, createdAt := 2\<rparr>"

definition sold_scooter :: listing where
  "sold_scooter =
     petrol_scooter\<lparr>doc_id := ''64f1b2c3d4e5f6789abcdef2'', availability := ''sold'', createdAt := 3\<rparr>"


definition free_scooter :: listing where
  "free_scooter = petrol_scooter\<lparr>presentPrice := 0\<rparr>"

definition sample_coll :: "listing list" where
  "sample_coll = [petrol_scooter, electric_scooter, sold_scooter]"


text \<open>A request without parameters, a regular expression engine and a sort order for examples.\<close>

definition empty_query :: query where
  "empty_query =
     \<lparr>q_page = None, q_limit = None, q_sort = None, q_type = None, q_condition = None,
      q_minPrice = None, q_maxPrice = None, q_brand = None, q_search = None,
      q_availability = None\<rparr>"

definition any_match :: regex where
  "any_match p = Some (\<lambda>s. True)"

definition newest_first :: "string \<Rightarrow> listing \<Rightarrow> int" where
  "newest_first srt d = - createdAt d"

definition second_page :: query where
  "second_page = empty_query\<lparr>q_page := Some ''2'', q_limit := Some ''1''\<rparr>"

definition stats_coll :: "listing list" where
  "stats_coll = [petrol_scooter, electric_scooter, sold_scooter, petrol_scooter\<lparr>isActive := False\<rparr>]"

section \<open>Properties\<close>

subsection \<open>Saving a document\<close>

lemmas save_defs = save_def validate_def pre_save_def truthy_def engineCapacity_validator_def
  batteryCapacity_validator_def

lemma save_error_message:
  "save this coll = Inl e \<Longrightarrow>
     e \<in> {ValidationError [''Engine capacity is required for petrol scooters''],
          ValidationError [''Battery capacity is required for electric scooters''],
          Error ''Engine capacity is required for petrol scooters'',
          Error ''Battery capacity is required for electric scooters''}"
  by (auto simp: save_defs Let_def split: option.splits list.splits sum.splits if_splits)




subsection \<open>The discount virtual\<close>

lemma discount_formula:
  "pastPrice this \<noteq> 0 \<Longrightarrow> presentPrice this \<noteq> 0 \<Longrightarrow>
   discount this = round ((pastPrice this - presentPrice this) / pastPrice this * 100)"
  by (simp add: discount_def)

lemma discount_no_pastPrice: "pastPrice this = 0 \<Longrightarrow> discount this = 0"
  by (simp add: discount_def)

lemma discount_no_presentPrice: "presentPrice this = 0 \<Longrightarrow> discount this = 0"
  by (simp add: discount_def)

text \<open>
  C2. The discount is the rounded percentage when both prices are non-zero and 0 when
  \<open>pastPrice\<close> is 0 (the three lemmas above). For a listing with \<open>pastPrice = 200000\<close>
  and \<open>presentPrice = 0\<close> the getter returns 0, where the rounded percentage is 100: the
  truthiness test on \<open>presentPrice\<close> takes a price of zero for a missing price.
\<close>

theorem discount_free_scooter:
  "pastPrice free_scooter = 200000 \<and> presentPrice free_scooter = 0 \<and>
   discount free_scooter = 0 \<and>
   round ((pastPrice free_scooter - presentPrice free_scooter) / pastPrice free_scooter * 100) = 100"
  by (simp add: discount_def free_scooter_def petrol_scooter_def)

subsection \<open>Reading one listing\<close>



lemma sample_find: "findById (doc_id electric_scooter) sample_coll = Inr (Some electric_scooter)"
  by code_simp





subsection \<open>Soft delete\<close>

lemma update_first_found:
  "List.find (\<lambda>d. doc_id d = i) coll = Some x \<Longrightarrow>
   fst (update_first i u coll) = Some (u x)"
  by (induction coll) (auto split: prod.splits)

lemma update_first_missing:
  "List.find (\<lambda>d. doc_id d = i) coll = None \<Longrightarrow> update_first i u coll = (None, coll)"
  by (induction coll) (auto split: prod.splits)

lemma update_first_idem:
  assumes "\<And>d. doc_id (u d) = doc_id d" and "\<And>d. u (u d) = u d"
  shows "update_first i u (snd (update_first i u coll)) = update_first i u coll"
  using assms by (induction coll) (auto split: prod.splits)

lemma find_update_first:
  assumes "\<And>d. doc_id (u d) = doc_id d"
  shows "List.find (\<lambda>d. doc_id d = i) (snd (update_first i u coll)) =
         map_option u (List.find (\<lambda>d. doc_id d = i) coll)"
  using assms by (induction coll) (auto split: prod.splits)

lemma set_update_first:
  "set (snd (update_first i u coll)) \<subseteq> set coll \<union> {u d | d. d \<in> set coll \<and> doc_id d = i}"
  by (induction coll) (auto split: prod.splits)


lemma delete_route_found:
  assumes "findById i coll = Inr (Some x)"
  shows "delete_route i coll = (Success (x\<lparr>isActive := False\<rparr>), snd (update_first i (\<lambda>d. d\<lparr>isActive := False\<rparr>) coll))"
proof -
  from assms have i: "isObjectId i" and f: "List.find (\<lambda>d. doc_id d = i) coll = Some x"
    by (auto simp: findById_def split: if_splits)
  from update_first_found [OF f, of "\<lambda>d. d\<lparr>isActive := False\<rparr>"]
  show ?thesis using i
    by (cases "update_first i (\<lambda>d. d\<lparr>isActive := False\<rparr>) coll")
       (simp add: delete_route_def findByIdAndUpdate_def)
qed

lemma findById_after_delete:
  assumes "findById i coll = Inr (Some x)"
  shows "findById i (snd (delete_route i coll)) = Inr (Some (x\<lparr>isActive := False\<rparr>))"
proof -
  from assms have i: "isObjectId i" and f: "List.find (\<lambda>d. doc_id d = i) coll = Some x"
    by (auto simp: findById_def split: if_splits)
  show ?thesis
    using i f find_update_first [of "\<lambda>d. d\<lparr>isActive := False\<rparr>" i coll]
    by (simp add: delete_route_found [OF assms] findById_def)
qed

text \<open>
  C9. For an id that resolves to an existing listing, \<open>DELETE /:id\<close> answers with success
  and the record with \<open>isActive = false\<close>; a second \<open>DELETE /:id\<close> gives the same answer
  and leaves the collection as the first call left it. (\<open>updatedAt\<close>, which the store
  refreshes on every update, is not part of the model.)
\<close>

theorem soft_delete_idempotent:
  assumes "findById i coll = Inr (Some x)"
  shows "delete_route i coll = (Success (x\<lparr>isActive := False\<rparr>), snd (delete_route i coll)) \<and>
         delete_route i (snd (delete_route i coll)) = delete_route i coll \<and>
         findById i (snd (delete_route i coll)) = Inr (Some (x\<lparr>isActive := False\<rparr>))"
proof -
  have 1: "delete_route i coll = (Success (x\<lparr>isActive := False\<rparr>), snd (delete_route i coll))"
    by (simp add: delete_route_found [OF assms])
  have 2: "findById i (snd (delete_route i coll)) = Inr (Some (x\<lparr>isActive := False\<rparr>))"
    by (rule findById_after_delete [OF assms])
  have "delete_route i (snd (delete_route i coll)) =
        (Success (x\<lparr>isActive := False\<rparr>),
         snd (update_first i (\<lambda>d. d\<lparr>isActive := False\<rparr>) (snd (delete_route i coll))))"
    using delete_route_found [OF 2] by simp
  also have "snd (update_first i (\<lambda>d. d\<lparr>isActive := False\<rparr>) (snd (delete_route i coll))) =
             snd (delete_route i coll)"
    using update_first_idem [of "\<lambda>d. d\<lparr>isActive := False\<rparr>" i coll]
    by (simp add: delete_route_found [OF assms])
  finally show ?thesis using 1 2 by simp
qed

theorem soft_delete_idempotent_witness:
  "delete_route (doc_id electric_scooter) sample_coll =
     (Success (electric_scooter\<lparr>isActive := False\<rparr>), snd (delete_route (doc_id electric_scooter) sample_coll)) \<and>
   delete_route (doc_id electric_scooter) (snd (delete_route (doc_id electric_scooter) sample_coll)) =
     delete_route (doc_id electric_scooter) sample_coll \<and>
   findById (doc_id electric_scooter) (snd (delete_route (doc_id electric_scooter) sample_coll)) =
     Inr (Some (electric_scooter\<lparr>isActive := False\<rparr>))"
  using soft_delete_idempotent [OF sample_find] .

subsection \<open>Listing queries return matching documents only\<close>

lemma count_matching_length: "count_matching P ds = length (filter P ds)"
  by (induction ds) auto

lemma skip_limit_subset: "skip_limit skp lmt xs = Inr ys \<Longrightarrow> set ys \<subseteq> set xs"
  by (auto simp: skip_limit_def split: option.splits if_splits dest: in_set_takeD in_set_dropD)

lemma find_docs_matches:
  "find_docs rx ord f srt skp lmt coll = Inr ys \<Longrightarrow> d \<in> set ys \<Longrightarrow> d \<in> set coll \<and> matches rx f d"
  by (auto simp: find_docs_def split: option.splits dest!: skip_limit_subset)

lemma paginate_matches:
  "paginate rx ord f q msg coll = Success pg \<Longrightarrow> d \<in> set (scooters pg) \<Longrightarrow>
   d \<in> set coll \<and> matches rx f d"
  by (auto simp: paginate_def Let_def split: sum.splits option.splits prod.splits dest: find_docs_matches)








subsection \<open>Pagination\<close>

lemma ceiling_quotient_le:
  assumes "0 < l"
  shows "\<lceil>(of_nat n :: rat) / of_int l\<rceil> \<le> k \<longleftrightarrow> int n \<le> k * l"
proof -
  have "\<lceil>(of_nat n :: rat) / of_int l\<rceil> \<le> k \<longleftrightarrow> (of_nat n :: rat) / of_int l \<le> of_int k"
    by (simp add: ceiling_le_iff)
  also have "\<dots> \<longleftrightarrow> (of_int (int n) :: rat) \<le> of_int (k * l)"
    using assms by (simp add: pos_divide_le_eq)
  also have "\<dots> \<longleftrightarrow> int n \<le> k * l"
    by (simp only: of_int_le_iff)
  finally show ?thesis .
qed

lemma paginate_eq:
  assumes "parseInt (default ''1'' (q_page q)) = Some p"
    and "parseInt (default ''10'' (q_limit q)) = Some l"
    and "0 \<le> (p - 1) * l" and "check_filter rx f = None"
  shows "paginate rx ord f q msg coll =
     Success \<lparr>scooters =
                (if l = 0 then drop (nat ((p - 1) * l))
                    (sort_key (ord (default ''-createdAt'' (q_sort q))) (filter (matches rx f) coll))
                 else take (nat \<bar>l\<bar>) (drop (nat ((p - 1) * l))
                    (sort_key (ord (default ''-createdAt'' (q_sort q))) (filter (matches rx f) coll)))),
              currentPage = p,
              totalPages = ceil_div (length (filter (matches rx f) coll)) l,
              totalCount = length (filter (matches rx f) coll),
              hasNextPage = js_less p (ceil_div (length (filter (matches rx f) coll)) l),
              hasPrevPage = (1 < p)\<rparr>"
  using assms
  by (simp add: paginate_def find_docs_def countDocuments_def skip_of_def skip_limit_def
      count_matching_length)

text \<open>
  C3. For a list query whose filter the store accepts and matches \<open>N\<close> listings, with
  page \<open>p \<ge> 1\<close> (default 1) and limit \<open>L \<ge> 1\<close> (default 10): the handler answers with the
  window of the sorted matches that starts at offset \<open>(p - 1) * L\<close> and has length
  \<open>min L (max 0 (N - (p - 1) * L))\<close>; \<open>totalCount = N\<close>, \<open>totalPages = ceil (N / L)\<close>,
  \<open>hasNextPage\<close> iff \<open>p < totalPages\<close>, \<open>hasPrevPage\<close> iff \<open>p > 1\<close>; a page beyond the
  last is empty and has no next page.
\<close>

theorem list_pagination:
  assumes "parseInt (default ''1'' (q_page q)) = Some p"
    and "parseInt (default ''10'' (q_limit q)) = Some l"
    and "1 \<le> p" and "1 \<le> l"
    and "check_filter rx (build_filter q) = None"
    and "sorted_docs = sort_key (ord (default ''-createdAt'' (q_sort q)))
                         (filter (matches rx (build_filter q)) coll)"
    and "N = length (filter (matches rx (build_filter q)) coll)"
  shows "\<exists>pg. list_route rx ord q coll = Success pg \<and>
           scooters pg = take (nat l) (drop (nat ((p - 1) * l)) sorted_docs) \<and>
           length (scooters pg) = min (nat l) (N - nat ((p - 1) * l)) \<and>
           totalCount pg = N \<and>
           totalPages pg = Num \<lceil>(of_nat N :: rat) / of_int l\<rceil> \<and>
           hasNextPage pg = (p < \<lceil>(of_nat N :: rat) / of_int l\<rceil>) \<and>
           hasPrevPage pg = (p > 1) \<and>
           (p > \<lceil>(of_nat N :: rat) / of_int l\<rceil> \<longrightarrow> scooters pg = [] \<and> \<not> hasNextPage pg)"
proof -
  from assms(3,4) have skip: "0 \<le> (p - 1) * l" by simp
  have beyond: "N \<le> nat ((p - 1) * l)" if "p > \<lceil>(of_nat N :: rat) / of_int l\<rceil>"
  proof -
    from that have "\<lceil>(of_nat N :: rat) / of_int l\<rceil> \<le> p - 1" by simp
    moreover from assms(4) have "0 < l" by simp
    ultimately have "int N \<le> (p - 1) * l" by (simp only: ceiling_quotient_le)
    then show ?thesis by simp
  qed
  have len: "length sorted_docs = N" by (simp add: assms(6,7))
  show ?thesis
    unfolding list_route_def paginate_eq [OF assms(1,2) skip assms(5)]
    using assms(3,4) beyond len
    by (auto simp: ceil_div_def js_less_def assms(6,7)[symmetric])
qed

lemma second_page_parse:
  "parseInt (default ''1'' (q_page second_page)) = Some 2"
  "parseInt (default ''10'' (q_limit second_page)) = Some 1"
  "check_filter any_match (build_filter second_page) = None"
  by code_simp+

theorem list_pagination_witness:
  "\<exists>pg. list_route any_match newest_first second_page sample_coll = Success pg \<and>
     scooters pg = [petrol_scooter] \<and> length (scooters pg) = 1 \<and> totalCount pg = 2 \<and>
     totalPages pg = Num 2 \<and> \<not> hasNextPage pg \<and> hasPrevPage pg"
proof -
  have s: "sort_key (newest_first (default ''-createdAt'' (q_sort second_page)))
             (filter (matches any_match (build_filter second_page)) sample_coll) =
           [electric_scooter, petrol_scooter]"
    by code_simp
  have n: "length (filter (matches any_match (build_filter second_page)) sample_coll) = 2"
    by code_simp
  from list_pagination [where q = second_page and p = 2 and l = 1 and rx = any_match
      and ord = newest_first and coll = sample_coll
      and sorted_docs = "[electric_scooter, petrol_scooter]" and N = 2]
  show ?thesis using second_page_parse s n by simp
qed

lemma build_filter_type_ignored:
  "\<not> array_includes [''Petrol'', ''Electric''] t \<Longrightarrow>
   build_filter (q\<lparr>q_type := t\<rparr>) = build_filter (q\<lparr>q_type := None\<rparr>)"
  by (simp add: build_filter_def Let_def array_includes_def)


lemma paginate_query_cong:
  "q_page q = q_page q' \<Longrightarrow> q_limit q = q_limit q' \<Longrightarrow> q_sort q = q_sort q' \<Longrightarrow>
   paginate rx ord f q msg coll = paginate rx ord f q' msg coll"
  by (simp add: paginate_def)




subsection \<open>The type and price-range routes\<close>

lemma paginate_Failure: "paginate rx ord f q msg coll = Failure n m \<Longrightarrow> n = 500 \<and> m = msg"
  by (auto simp: paginate_def Let_def split: sum.splits option.splits prod.splits)

lemma check_findByType: "check_filter rx (findByType_filter t) = None"
  by (simp add: check_filter_def findByType_filter_def no_filter_def valid_pattern_def)


lemma matches_findByType:
  "matches rx (findByType_filter t) d \<longleftrightarrow> type d = t \<and> availability d = ''available'' \<and> isActive d"
  by (auto simp: matches_def findByType_filter_def no_filter_def)


lemma paginate_Success:
  assumes "parseInt (default ''1'' (q_page q)) = Some p"
    and "parseInt (default ''10'' (q_limit q)) = Some l"
    and "1 \<le> p" and "1 \<le> l" and "check_filter rx f = None"
  shows "\<exists>pg. paginate rx ord f q msg coll = Success pg"
proof -
  from assms(3,4) have "0 \<le> (p - 1) * l" by simp
  from paginate_eq [OF assms(1,2) this assms(5)] show ?thesis by blast
qed

text \<open>
  C10. \<open>GET /type/:type\<close> answers 400 for every type outside Petrol and Electric, where
  the list route gives the same answer as without the parameter; for Petrol or Electric
  it never answers 400, every listing it returns has that type, is active and available,
  and it does return a page when \<open>page\<close> and \<open>limit\<close> parse to numbers from 1 upwards.
\<close>

theorem type_route_rule:
  "(t \<notin> set [''Petrol'', ''Electric''] \<longrightarrow>
      type_route rx ord t q coll = Failure 400 ''Invalid scooter type. Must be Petrol or Electric'' \<and>
      list_route rx ord (q\<lparr>q_type := Some t\<rparr>) coll = list_route rx ord (q\<lparr>q_type := None\<rparr>) coll) \<and>
   (t \<in> set [''Petrol'', ''Electric''] \<longrightarrow>
      (\<forall>m. type_route rx ord t q coll \<noteq> Failure 400 m) \<and>
      (\<forall>pg. type_route rx ord t q coll = Success pg \<longrightarrow>
         (\<forall>d \<in> set (scooters pg). type d = t \<and> isActive d \<and> availability d = ''available'')) \<and>
      (\<forall>p l. parseInt (default ''1'' (q_page q)) = Some p \<and>
             parseInt (default ''10'' (q_limit q)) = Some l \<and> 1 \<le> p \<and> 1 \<le> l \<longrightarrow>
         (\<exists>pg. type_route rx ord t q coll = Success pg)))"
proof (intro conjI impI allI)
  assume t: "t \<notin> set [''Petrol'', ''Electric'']"
  then show "type_route rx ord t q coll = Failure 400 ''Invalid scooter type. Must be Petrol or Electric''"
    by (simp add: type_route_def)
  from t have "\<not> array_includes [''Petrol'', ''Electric''] (Some t)"
    by (simp add: array_includes_def)
  then have "build_filter (q\<lparr>q_type := Some t\<rparr>) = build_filter (q\<lparr>q_type := None\<rparr>)"
    by (rule build_filter_type_ignored)
  then show "list_route rx ord (q\<lparr>q_type := Some t\<rparr>) coll = list_route rx ord (q\<lparr>q_type := None\<rparr>) coll"
    unfolding list_route_def by (simp add: paginate_query_cong [of "q\<lparr>q_type := Some t\<rparr>" "q\<lparr>q_type := None\<rparr>"])
next
  fix m assume t: "t \<in> set [''Petrol'', ''Electric'']"
  then have r: "type_route rx ord t q coll =
      paginate rx ord (findByType_filter t) q ''Error fetching scooters by type'' coll"
    by (simp add: type_route_def)
  show "type_route rx ord t q coll \<noteq> Failure 400 m"
    unfolding r by (auto dest: paginate_Failure)
next
  fix pg assume t: "t \<in> set [''Petrol'', ''Electric'']"
    and s: "type_route rx ord t q coll = Success pg"
  from t s have "paginate rx ord (findByType_filter t) q ''Error fetching scooters by type'' coll = Success pg"
    by (simp add: type_route_def)
  then show "\<forall>d \<in> set (scooters pg). type d = t \<and> isActive d \<and> availability d = ''available''"
    by (auto dest!: paginate_matches simp: matches_findByType)
next
  fix p l assume t: "t \<in> set [''Petrol'', ''Electric'']"
    and h: "parseInt (default ''1'' (q_page q)) = Some p \<and>
            parseInt (default ''10'' (q_limit q)) = Some l \<and> 1 \<le> p \<and> 1 \<le> l"
  from t have r: "type_route rx ord t q coll =
      paginate rx ord (findByType_filter t) q ''Error fetching scooters by type'' coll"
    by (simp add: type_route_def)
  from h show "\<exists>pg. type_route rx ord t q coll = Success pg"
    unfolding r by (intro paginate_Success [where p = p and l = l] check_findByType) simp_all
qed

lemma empty_query_parse:
  "parseInt (default ''1'' (q_page empty_query)) = Some 1"
  "parseInt (default ''10'' (q_limit empty_query)) = Some 10"
  by code_simp+

theorem type_route_rule_witness:
  "type_route any_match newest_first ''Diesel'' empty_query sample_coll =
     Failure 400 ''Invalid scooter type. Must be Petrol or Electric'' \<and>
   list_route any_match newest_first (empty_query\<lparr>q_type := Some ''Diesel''\<rparr>) sample_coll =
     list_route any_match newest_first (empty_query\<lparr>q_type := None\<rparr>) sample_coll \<and>
   (\<exists>pg. type_route any_match newest_first ''Electric'' empty_query sample_coll = Success pg \<and>
      set (scooters pg) \<subseteq> {d. type d = ''Electric'' \<and> isActive d \<and> availability d = ''available''})"
proof -
  have 1: "''Diesel'' \<notin> set [''Petrol'', ''Electric'']" by simp
  have 2: "''Electric'' \<in> set [''Petrol'', ''Electric'']" by simp
  note a = type_route_rule [of "''Diesel''" any_match newest_first empty_query sample_coll]
  note b = type_route_rule [of "''Electric''" any_match newest_first empty_query sample_coll]
  have 3: "parseInt (default ''1'' (q_page empty_query)) = Some 1 \<and>
           parseInt (default ''10'' (q_limit empty_query)) = Some 10 \<and> (1::int) \<le> 1 \<and> (1::int) \<le> 10"
    by (simp add: empty_query_parse)
  note A = a [THEN conjunct1, THEN mp, OF 1]
  note B = b [THEN conjunct2, THEN mp, OF 2]
  from B [THEN conjunct2, THEN conjunct2, rule_format, OF 3] obtain pg where
    s: "type_route any_match newest_first ''Electric'' empty_query sample_coll = Success pg" ..
  from B [THEN conjunct2, THEN conjunct1, rule_format, OF s]
  have "set (scooters pg) \<subseteq> {d. type d = ''Electric'' \<and> isActive d \<and> availability d = ''available''}"
    by blast
  with A s show ?thesis by blast
qed






subsection \<open>Statistics\<close>


lemma group_prices_fold:
  "group_prices (s, n, lo, hi) ds =
     (s + sum_list (map presentPrice ds), n + length ds,
      fold min (map presentPrice ds) lo, fold max (map presentPrice ds) hi)"
  by (induction ds arbitrary: s n lo hi) (simp_all add: add.assoc min.commute max.commute)

lemma aggregate_eq:
  assumes "prices = map presentPrice (filter (matches rx f) coll)"
  shows "aggregate rx f coll =
     (if prices = [] then []
      else [\<lparr>avgPrice = sum_list prices / of_nat (length prices),
             minPrice = Min (set prices), maxPrice = Max (set prices)\<rparr>])"
proof (cases "filter (matches rx f) coll")
  case Nil
  then show ?thesis by (simp add: aggregate_def assms)
next
  case (Cons d ds)
  then have p: "prices = presentPrice d # map presentPrice ds" by (simp add: assms)
  have "Min (set prices) = fold min (map presentPrice ds) (presentPrice d)"
    unfolding p by (rule Min.set_eq_fold)
  moreover have "Max (set prices) = fold max (map presentPrice ds) (presentPrice d)"
    unfolding p by (rule Max.set_eq_fold)
  ultimately show ?thesis
    by (simp add: aggregate_def Cons group_prices_fold p add.commute)
qed

lemma countDocuments_plain:
  "f_gte f = None \<Longrightarrow> f_lte f = None \<Longrightarrow> f_brand f = None \<Longrightarrow> f_or f = None \<Longrightarrow>
   countDocuments rx f coll = Inr (length (filter (matches rx f) coll))"
  by (simp add: countDocuments_def check_filter_def valid_pattern_def count_matching_length)

lemma count_or_fail_plain:
  "f_gte f = None \<Longrightarrow> f_lte f = None \<Longrightarrow> f_brand f = None \<Longrightarrow> f_or f = None \<Longrightarrow>
   count_or_fail rx f coll k = k (length (filter (matches rx f) coll))"
  by (simp add: count_or_fail_def countDocuments_plain)

lemma matches_plain:
  "matches rx (no_filter\<lparr>f_isActive := Some True\<rparr>) = isActive"
  "matches rx (no_filter\<lparr>f_availability := Some a, f_isActive := Some True\<rparr>) =
     (\<lambda>d. isActive d \<and> availability d = a)"
  "matches rx (no_filter\<lparr>f_type := Some t, f_isActive := Some True\<rparr>) =
     (\<lambda>d. isActive d \<and> type d = t)"
  "matches rx (no_filter\<lparr>f_isActive := Some True, f_availability := Some a\<rparr>) =
     (\<lambda>d. isActive d \<and> availability d = a)"
  by (auto simp: matches_def no_filter_def fun_eq_iff)

text \<open>
  C8. \<open>GET /stats/overview\<close> always answers with the statistics: \<open>total\<close> counts the active
  listings; \<open>available\<close> and \<open>sold\<close> count the active listings with that availability;
  \<open>petrol\<close> and \<open>electric\<close> count the active listings of that type, whatever their
  availability; the average, least and greatest \<open>presentPrice\<close> are taken over the
  active, available listings only, and are 0 when there is none.
\<close>

theorem stats_overview:
  assumes "prices = map presentPrice (filter (\<lambda>d. isActive d \<and> availability d = ''available'') coll)"
  shows "\<exists>st. stats_route rx coll = Success st \<and>
     total st = length (filter isActive coll) \<and>
     available st = length (filter (\<lambda>d. isActive d \<and> availability d = ''available'') coll) \<and>
     sold st = length (filter (\<lambda>d. isActive d \<and> availability d = ''sold'') coll) \<and>
     petrol st = length (filter (\<lambda>d. isActive d \<and> type d = ''Petrol'') coll) \<and>
     electric st = length (filter (\<lambda>d. isActive d \<and> type d = ''Electric'') coll) \<and>
     priceStats st =
       (if prices = [] then \<lparr>avgPrice = 0, minPrice = 0, maxPrice = 0\<rparr>
        else \<lparr>avgPrice = sum_list prices / of_nat (length prices),
              minPrice = Min (set prices), maxPrice = Max (set prices)\<rparr>)"
proof -
  have a: "aggregate rx (no_filter\<lparr>f_isActive := Some True, f_availability := Some ''available''\<rparr>) coll =
     (if prices = [] then []
      else [\<lparr>avgPrice = sum_list prices / of_nat (length prices),
             minPrice = Min (set prices), maxPrice = Max (set prices)\<rparr>])"
    by (rule aggregate_eq) (simp add: assms matches_plain)
  have n: "f_gte no_filter = None" "f_lte no_filter = None" "f_brand no_filter = None"
    "f_or no_filter = None" by (simp_all add: no_filter_def)
  show ?thesis
    unfolding stats_route_def a
    by (simp add: count_or_fail_plain n matches_plain)
qed

lemma stats_prices:
  "map presentPrice (filter (\<lambda>d. isActive d \<and> availability d = ''available'') stats_coll) = [150000, 90000]"
  by (simp add: stats_coll_def petrol_scooter_def electric_scooter_def sold_scooter_def)

theorem stats_overview_witness:
  "stats_route any_match stats_coll =
     Success \<lparr>total = 3, available = 2, sold = 1, petrol = 2, electric = 1,
              priceStats = \<lparr>avgPrice = 120000, minPrice = 90000, maxPrice = 150000\<rparr>\<rparr>"
proof -
  from stats_overview [OF stats_prices [symmetric], of any_match] obtain st where
    st: "stats_route any_match stats_coll = Success st"
      "total st = length (filter isActive stats_coll)"
      "available st = length (filter (\<lambda>d. isActive d \<and> availability d = ''available'') stats_coll)"
      "sold st = length (filter (\<lambda>d. isActive d \<and> availability d = ''sold'') stats_coll)"
      "petrol st = length (filter (\<lambda>d. isActive d \<and> type d = ''Petrol'') stats_coll)"
      "electric st = length (filter (\<lambda>d. isActive d \<and> type d = ''Electric'') stats_coll)"
      "priceStats st = \<lparr>avgPrice = 120000, minPrice = 90000, maxPrice = 150000\<rparr>"
    by auto
  have "st = \<lparr>total = 3, available = 2, sold = 1, petrol = 2, electric = 1,
              priceStats = \<lparr>avgPrice = 120000, minPrice = 90000, maxPrice = 150000\<rparr>\<rparr>"
    using st(2-7)
    by (cases st) (simp add: stats_coll_def petrol_scooter_def electric_scooter_def sold_scooter_def)
  with st(1) show ?thesis by simp
qed

end
